theory Spec2Isabelle
  imports Complex_Main
begin

text \<open>
  The tool-detection registry of \<open>src/pyqt_app_info/tools.py\<close>: the dataclasses
  \<open>ToolSpec\<close> and \<open>ToolResult\<close>, and the class \<open>ToolRegistry\<close> with its methods
  \<open>register\<close>, \<open>detect\<close>, \<open>detect_all\<close> and \<open>_detect_one\<close>.
\<close>

section \<open>Python strings: \<open>str.strip\<close> and \<open>str.split\<close>\<close>

text \<open>
  A Python \<open>str\<close> is a sequence of code points. It is modelled as a \<open>string\<close>, each
  \<open>char\<close> standing for the code point of the same number (0 to 255).
  \<open>str.strip()\<close> with no argument removes the characters for which \<open>str.isspace\<close>
  holds; below 256 these are TAB, LF, VT, FF, CR, the separators 0x1C to 0x1F, the space,
  NEL (0x85) and the no-break space (0xA0).
\<close>

definition py_isspace :: "char \<Rightarrow> bool" where
  "py_isspace c =
     (let n = (of_char c :: nat)
      in (9 \<le> n \<and> n \<le> 13) \<or> (28 \<le> n \<and> n \<le> 32) \<or> n = 133 \<or> n = 160)"

definition py_lstrip :: "string \<Rightarrow> string" where
  "py_lstrip s = dropWhile py_isspace s"

definition py_rstrip :: "string \<Rightarrow> string" where
  "py_rstrip s = rev (dropWhile py_isspace (rev s))"

definition py_strip :: "string \<Rightarrow> string" where
  "py_strip s = py_rstrip (py_lstrip s)"

text \<open>
  \<open>s.split(sep)\<close> for a separator of one character: the pieces between the occurrences
  of \<open>sep\<close>, from left to right. \<open>cur\<close> is the piece being read.
\<close>

fun split_from :: "char \<Rightarrow> string \<Rightarrow> string \<Rightarrow> string list" where
  "split_from sep cur [] = [cur]"
| "split_from sep cur (c # cs) =
     (if c = sep then cur # split_from sep [] cs else split_from sep (cur @ [c]) cs)"

definition py_split :: "char \<Rightarrow> string \<Rightarrow> string list" where
  "py_split sep s = split_from sep [] s"

definition newline :: char where
  "newline = CHR 0x0A"

section \<open>Data model (\<open>tools.py\<close>)\<close>

record ToolSpec =
  name :: string
  command :: string
  version_flag :: string
  fallback_paths :: "string list"
  version_timeout :: real

text \<open>The dataclass defaults of \<open>ToolSpec\<close>.\<close>

definition ToolSpec_init :: "string \<Rightarrow> string \<Rightarrow> ToolSpec" where
  "ToolSpec_init n c =
     \<lparr>name = n, command = c, version_flag = ''--version'', fallback_paths = [],
      version_timeout = 5\<rparr>"

text \<open>
  \<open>ToolResult\<close> has the defaults \<open>path = None\<close>, \<open>version = None\<close> and
  \<open>status = "not_found"\<close>; below, each construction writes out the fields that the
  source leaves to them. The status is a \<open>str\<close>, as in the source.
\<close>

record ToolResult =
  name :: string
  path :: "string option"
  version :: "string option"
  status :: string

text \<open>\<open>subprocess.CompletedProcess\<close>, built with \<open>capture_output=True, text=True\<close>.\<close>

record CompletedProcess =
  returncode :: int
  stdout :: string
  stderr :: string

section \<open>Exceptions\<close>

text \<open>
  The exceptions of the code, by class. \<open>KeyError\<close> comes from the dict lookup of
  \<open>detect\<close> and \<open>IndexError\<close> from a list index. \<open>Path.is_file\<close> raises
  \<open>OSError\<close> for every failure of \<open>stat\<close> that does not mean "no such file" (a name
  that is too long, a directory that may not be searched). \<open>subprocess.run\<close> raises
  \<open>TimeoutExpired\<close> when the deadline passes, \<open>OSError\<close> (with its subclasses
  \<open>FileNotFoundError\<close>, \<open>PermissionError\<close>, ...) when the program cannot be
  launched, \<open>ValueError\<close> for an argument with a null character or output it cannot
  decode as text (\<open>UnicodeDecodeError\<close> is a \<open>ValueError\<close>), and \<open>OverflowError\<close>
  for a timeout too large for the clock. \<open>Other\<close> stands for any other class, by its name.
\<close>

datatype exception =
  KeyError string | IndexError | TimeoutExpired | OSError | ValueError | OverflowError
  | Other string

text \<open>
  The clause \<open>except (subprocess.TimeoutExpired, OSError)\<close> of \<open>_detect_one\<close>: the
  exceptions it catches.
\<close>

fun caught :: "exception \<Rightarrow> bool" where
  "caught TimeoutExpired = True"
| "caught OSError = True"
| "caught e = False"

section \<open>The operating system\<close>

text \<open>
  The three primitives \<open>_detect_one\<close> calls, \<open>shutil.which\<close>,
  \<open>Path(p).is_file()\<close> and \<open>subprocess.run(args, capture_output=True, text=True,
  timeout=t)\<close>, are parameters of the model: every theorem holds for whatever they
  answer. Their answers depend on their arguments only (the machine does not change
  while a detection runs). \<open>shutil.which\<close> answers a path or \<open>None\<close>;
  \<open>is_file\<close> answers \<open>True\<close> or \<open>False\<close>, or raises; \<open>subprocess.run\<close>
  returns a completed process, or raises. Each call is also written to a log, so that
  what was called, and in which order, can be stated.
\<close>

record os_env =
  shutil_which :: "string \<Rightarrow> string option"
  path_is_file :: "string \<Rightarrow> exception + bool"
  subprocess_run :: "string list \<Rightarrow> real \<Rightarrow> exception + CompletedProcess"

datatype os_call = Which string | Is_file string | Run "string list" real

fun is_Run :: "os_call \<Rightarrow> bool" where
  "is_Run (Run args t) = True"
| "is_Run c = False"

section \<open>Python dicts\<close>

text \<open>
  A \<open>dict\<close> keeps its keys in insertion order; assigning to a key that is present
  replaces the value where the key stands. It is an association list with one entry
  per key.
\<close>

fun dict_setitem :: "'k \<Rightarrow> 'v \<Rightarrow> ('k \<times> 'v) list \<Rightarrow> ('k \<times> 'v) list" where
  "dict_setitem k v [] = [(k, v)]"
| "dict_setitem k v ((k', v') # d) =
     (if k' = k then (k', v) # d else (k', v') # dict_setitem k v d)"

definition dict_getitem :: "(string \<times> 'v) list \<Rightarrow> string \<Rightarrow> exception + 'v" where
  "dict_getitem d k = (case map_of d k of None \<Rightarrow> Inl (KeyError k) | Some v \<Rightarrow> Inr v)"

definition dict_values :: "('k \<times> 'v) list \<Rightarrow> 'v list" where
  "dict_values d = map snd d"

definition dict_keys :: "('k \<times> 'v) list \<Rightarrow> 'k list" where
  "dict_keys d = map fst d"

section \<open>\<open>ToolRegistry\<close>\<close>

text \<open>
  The state the methods run in: the registry's \<open>_specs\<close> dict and the log of the
  operating-system calls made so far. Every method takes the state and returns the new
  one beside its result.
\<close>

record state =
  specs :: "(string \<times> ToolSpec) list"
  os_calls :: "os_call list"

definition log_call :: "os_call \<Rightarrow> state \<Rightarrow> state" where
  "log_call c st = st\<lparr>os_calls := os_calls st @ [c]\<rparr>"

text \<open>\<open>ToolRegistry()\<close>, in a process that has made the calls \<open>cs\<close>.\<close>

definition ToolRegistry_init :: "os_call list \<Rightarrow> state" where
  "ToolRegistry_init cs = \<lparr>specs = [], os_calls = cs\<rparr>"

definition register :: "ToolSpec \<Rightarrow> state \<Rightarrow> state" where
  "register spec st = st\<lparr>specs := dict_setitem (ToolSpec.name spec) spec (specs st)\<rparr>"

text \<open>
  The \<open>for candidate in spec.fallback_paths\<close> loop, with its \<open>break\<close>. The loop
  stands before the \<open>try\<close> of \<open>_detect_one\<close>, so an exception of \<open>is_file\<close> ends
  the loop and leaves the method.
\<close>

fun probe_fallbacks ::
  "os_env \<Rightarrow> string list \<Rightarrow> state \<Rightarrow> (exception + string option) \<times> state" where
  "probe_fallbacks env [] st = (Inr None, st)"
| "probe_fallbacks env (candidate # rest) st =
     (let st1 = log_call (Is_file candidate) st
      in case path_is_file env candidate of
           Inl e \<Rightarrow> (Inl e, st1)
         | Inr found \<Rightarrow>
             if found then (Inr (Some candidate), st1)
             else probe_fallbacks env rest st1)"

text \<open>Lines 107 to 114 of \<open>_detect_one\<close>: the value of \<open>path\<close> at line 116.\<close>

definition resolve_path ::
  "os_env \<Rightarrow> ToolSpec \<Rightarrow> state \<Rightarrow> (exception + string option) \<times> state" where
  "resolve_path env spec st =
     (let path = shutil_which env (command spec);
          st1 = log_call (Which (command spec)) st
      in if path = None then probe_fallbacks env (fallback_paths spec) st1
         else (Inr path, st1))"

text \<open>Lines 116 to 137 of \<open>_detect_one\<close>.\<close>

definition detect_one :: "os_env \<Rightarrow> ToolSpec \<Rightarrow> state \<Rightarrow> (exception + ToolResult) \<times> state" where
  "detect_one env spec st =
     (case resolve_path env spec st of
        (Inl e, st2) \<Rightarrow> (Inl e, st2)
      | (Inr None, st2) \<Rightarrow>
          (Inr \<lparr>name = ToolSpec.name spec, path = None, version = None,
                status = ''not_found''\<rparr>, st2)
      | (Inr (Some p), st2) \<Rightarrow>
          (let args = [p, version_flag spec];
               st3 = log_call (Run args (version_timeout spec)) st2
           in case subprocess_run env args (version_timeout spec) of
                Inr proc \<Rightarrow>
                  if returncode proc = 0 then
                    (case py_split newline (py_strip (stdout proc)) of
                       [] \<Rightarrow> (Inl IndexError, st3)
                     | v # rest \<Rightarrow>
                         (Inr \<lparr>name = ToolSpec.name spec, path = Some p, version = Some v,
                               status = ''available''\<rparr>, st3))
                  else
                    (Inr \<lparr>name = ToolSpec.name spec, path = Some p, version = None,
                          status = ''error''\<rparr>, st3)
              | Inl e \<Rightarrow>
                  if caught e then
                    (Inr \<lparr>name = ToolSpec.name spec, path = Some p, version = None,
                          status = ''error''\<rparr>, st3)
                  else (Inl e, st3)))"

definition detect :: "os_env \<Rightarrow> string \<Rightarrow> state \<Rightarrow> (exception + ToolResult) \<times> state" where
  "detect env n st =
     (case dict_getitem (specs st) n of
        Inl e \<Rightarrow> (Inl e, st)
      | Inr spec \<Rightarrow> detect_one env spec st)"

text \<open>
  The list comprehension of \<open>detect_all\<close>: one \<open>_detect_one\<close> after the other, in
  the order of the list; an exception ends it.
\<close>

fun detect_each :: "os_env \<Rightarrow> ToolSpec list \<Rightarrow> state \<Rightarrow> (exception + ToolResult list) \<times> state" where
  "detect_each env [] st = (Inr [], st)"
| "detect_each env (spec # rest) st =
     (case detect_one env spec st of
        (Inl e, st1) \<Rightarrow> (Inl e, st1)
      | (Inr r, st1) \<Rightarrow>
          (case detect_each env rest st1 of
             (Inl e, st2) \<Rightarrow> (Inl e, st2)
           | (Inr rs, st2) \<Rightarrow> (Inr (r # rs), st2)))"

definition detect_all :: "os_env \<Rightarrow> state \<Rightarrow> (exception + ToolResult list) \<times> state" where
  "detect_all env st = detect_each env (dict_values (specs st)) st"

text \<open>
  The helper of the tests, \<open>_make_registry\<close>: the specifications registered one
  after the other, the head of the list first.
\<close>

fun register_all :: "ToolSpec list \<Rightarrow> state \<Rightarrow> state" where
  "register_all [] st = st"
| "register_all (spec # rest) st = register_all rest (register spec st)"

section \<open>The specification's words\<close>

text \<open>
  The status consistency invariant of a \<open>ToolResult\<close>, as the specification's data
  model states it.
\<close>

definition status_consistent :: "ToolResult \<Rightarrow> bool" where
  "status_consistent r =
     ((status r = ''not_found'' \<longrightarrow> path r = None \<and> version r = None) \<and>
      (status r = ''available'' \<longrightarrow> path r \<noteq> None \<and> version r \<noteq> None) \<and>
      (status r = ''error'' \<longrightarrow> path r \<noteq> None \<and> version r = None))"

text \<open>
  The version as the specification words it: the captured text is split on line
  boundaries, the first line is taken, and that line is trimmed.
\<close>

definition spec_version :: "string \<Rightarrow> string" where
  "spec_version out = (case py_split newline out of [] \<Rightarrow> [] | l # ls \<Rightarrow> py_strip l)"

section \<open>A machine to run the examples on\<close>

text \<open>
  One command, \<open>tool\<close>, is on the search path; two more copies are files under
  \<open>/opt\<close>. What the program does depends on its flag: \<open>--version\<close> prints a blank
  line before the version, \<open>-ver\<close> prints two lines, \<open>--fail\<close> exits with status 1,
  \<open>--sleep\<close> never ends, and with any other flag the launch fails.
\<close>

definition tool_run :: "string list \<Rightarrow> real \<Rightarrow> exception + CompletedProcess" where
  "tool_run args t =
     (if tl args = [''--version''] then
        Inr \<lparr>returncode = 0, stdout = ''\<newline>foo\<newline>'', stderr = ''''\<rparr>
      else if tl args = [''-ver''] then
        Inr \<lparr>returncode = 0, stdout = ''X\<newline>Y\<newline>'', stderr = ''''\<rparr>
      else if tl args = [''--fail''] then
        Inr \<lparr>returncode = 1, stdout = '''', stderr = ''unknown option''\<rparr>
      else if tl args = [''--sleep''] then Inl TimeoutExpired
      else Inl OSError)"

text \<open>
  \<open>subprocess.run\<close> refuses an argument with a null character (\<open>ValueError: embedded
  null byte\<close>) before anything is launched.
\<close>

definition example_run :: "string list \<Rightarrow> real \<Rightarrow> exception + CompletedProcess" where
  "example_run args t =
     (if list_ex (\<lambda>a. CHR 0x00 \<in> set a) args then Inl ValueError else tool_run args t)"

text \<open>
  A file name of more than 255 characters is refused by the file system
  (\<open>OSError: [Errno 36] File name too long\<close>), and \<open>is_file\<close> raises it. The path
  \<open>'/' + 'a' * 300\<close> is one.
\<close>

definition name_too_long :: "string \<Rightarrow> bool" where
  "name_too_long p = list_ex (\<lambda>c. 255 < length c) (py_split CHR ''/'' p)"

definition long_path :: string where
  "long_path = CHR ''/'' # replicate 300 CHR ''a''"

definition example_is_file :: "string \<Rightarrow> exception + bool" where
  "example_is_file p =
     (if name_too_long p then Inl OSError
      else Inr (p = ''/opt/a/tool'' \<or> p = ''/opt/b/tool''))"

definition example_env :: os_env where
  "example_env =
     \<lparr>shutil_which = (\<lambda>c. if c = ''tool'' then Some ''/usr/bin/tool'' else None),
      path_is_file = example_is_file,
      subprocess_run = example_run\<rparr>"

section \<open>Facts about the string functions\<close>

lemma split_from_shape:
  "\<exists>rest. split_from sep cur s = (cur @ takeWhile (\<lambda>c. c \<noteq> sep) s) # rest"
proof (induction s arbitrary: cur)
  case Nil
  show ?case by simp
next
  case (Cons a s)
  show ?case
  proof (cases "a = sep")
    case True
    then show ?thesis by simp
  next
    case False
    with Cons.IH [of "cur @ [a]"] show ?thesis by simp
  qed
qed

lemma py_split_shape:
  "\<exists>rest. py_split sep s = takeWhile (\<lambda>c. c \<noteq> sep) s # rest"
  using split_from_shape [of sep "[]" s] by (simp add: py_split_def)

lemma py_isspace_newline: "py_isspace newline"
  by (simp add: py_isspace_def newline_def)

lemma dropWhile_all: "(\<forall>x\<in>set (dropWhile P s). P x) = (\<forall>x\<in>set s. P x)"
  by (induction s) auto

lemma py_strip_Nil_iff: "(py_strip s = []) = list_all py_isspace s"
  by (simp add: py_strip_def py_rstrip_def py_lstrip_def list_all_iff dropWhile_all)

lemma py_rstrip_prefix: "\<exists>t. s = py_rstrip s @ t"
proof -
  have "py_rstrip s @ rev (takeWhile py_isspace (rev s)) =
        rev (takeWhile py_isspace (rev s) @ dropWhile py_isspace (rev s))"
    by (simp only: py_rstrip_def rev_append)
  also have "\<dots> = s"
    by (simp only: takeWhile_dropWhile_id rev_rev_ident)
  finally have "s = py_rstrip s @ rev (takeWhile py_isspace (rev s))"
    by (rule sym)
  then show ?thesis ..
qed

lemma py_strip_hd:
  assumes "py_strip s \<noteq> []"
  shows "\<not> py_isspace (hd (py_strip s))"
proof -
  obtain t where t: "py_lstrip s = py_strip s @ t"
    using py_rstrip_prefix [of "py_lstrip s"] by (auto simp: py_strip_def)
  with assms have ne: "py_lstrip s \<noteq> []"
    by auto
  from t assms have "hd (py_strip s) = hd (py_lstrip s)"
    by (metis hd_append2)
  moreover from ne have "\<not> py_isspace (hd (py_lstrip s))"
    unfolding py_lstrip_def by (rule hd_dropWhile)
  ultimately show ?thesis by simp
qed

lemma first_line_Nil_iff:
  "(takeWhile (\<lambda>c. c \<noteq> newline) (py_strip s) = []) = list_all py_isspace s"
proof (cases "py_strip s")
  case Nil
  then show ?thesis using py_strip_Nil_iff [of s] by simp
next
  case (Cons a as)
  then have "\<not> py_isspace a"
    using py_strip_hd [of s] by simp
  then have "a \<noteq> newline"
    using py_isspace_newline by auto
  with Cons show ?thesis
    using py_strip_Nil_iff [of s] by simp
qed


section \<open>Facts about the machine of the examples\<close>

lemma split_from_no_sep: "sep \<notin> set s \<Longrightarrow> split_from sep cur s = [cur @ s]"
  by (induction s arbitrary: cur) auto

lemma name_too_long_long_path: "name_too_long long_path"
  by (simp add: name_too_long_def long_path_def py_split_def split_from_no_sep)

lemma short_names:
  "\<not> name_too_long ''/opt/a/tool''" "\<not> name_too_long ''/opt/b/tool''"
  "\<not> name_too_long ''/opt/c/tool''" "\<not> name_too_long ''/opt/d/tool''"
  by (simp_all add: name_too_long_def py_split_def)

section \<open>Facts about \<open>_detect_one\<close>\<close>

lemma log_call_specs: "specs (log_call c st) = specs st"
  by (simp add: log_call_def)

lemma probe_fallbacks_specs: "specs (snd (probe_fallbacks env cs st)) = specs st"
  by (induction cs arbitrary: st) (simp_all add: Let_def log_call_specs split: sum.splits)

lemma resolve_path_specs: "specs (snd (resolve_path env spec st)) = specs st"
  by (simp add: resolve_path_def Let_def probe_fallbacks_specs log_call_specs)

lemma probe_fallbacks_state:
  "fst (probe_fallbacks env cs st) = fst (probe_fallbacks env cs st')"
  by (induction cs arbitrary: st st') (simp_all add: Let_def split: sum.splits)

lemma probe_fallbacks_none:
  "\<forall>c\<in>set cs. path_is_file env c = Inr False \<Longrightarrow>
   probe_fallbacks env cs st = (Inr None, st\<lparr>os_calls := os_calls st @ map Is_file cs\<rparr>)"
  by (induction cs arbitrary: st) (simp_all add: Let_def log_call_def)

lemma probe_fallbacks_first:
  "\<forall>c\<in>set pre. path_is_file env c = Inr False \<Longrightarrow> path_is_file env a = Inr True \<Longrightarrow>
   probe_fallbacks env (pre @ a # post) st =
     (Inr (Some a), st\<lparr>os_calls := os_calls st @ map Is_file (pre @ [a])\<rparr>)"
  by (induction pre arbitrary: st) (simp_all add: Let_def log_call_def)

lemma probe_fallbacks_raises:
  "\<forall>c\<in>set pre. path_is_file env c = Inr False \<Longrightarrow> path_is_file env a = Inl e \<Longrightarrow>
   probe_fallbacks env (pre @ a # post) st =
     (Inl e, st\<lparr>os_calls := os_calls st @ map Is_file (pre @ [a])\<rparr>)"
  by (induction pre arbitrary: st) (simp_all add: Let_def log_call_def)

lemma probe_fallbacks_exception:
  "fst (probe_fallbacks env cs st) = Inl e \<Longrightarrow> \<exists>c\<in>set cs. path_is_file env c = Inl e"
  by (induction cs arbitrary: st) (auto simp: Let_def split: sum.splits if_splits)

lemma resolve_path_state: "fst (resolve_path env spec st) = fst (resolve_path env spec st')"
  using probe_fallbacks_state [of env "fallback_paths spec"]
  by (simp add: resolve_path_def Let_def)

lemma resolve_path_exception:
  "fst (resolve_path env spec st) = Inl e \<Longrightarrow>
   \<exists>c\<in>set (fallback_paths spec). path_is_file env c = Inl e"
  using probe_fallbacks_exception [of env "fallback_paths spec" _ e]
  by (auto simp: resolve_path_def Let_def split: if_splits)

lemma detect_one_specs: "specs (snd (detect_one env spec st)) = specs st"
proof (cases "resolve_path env spec st")
  case (Pair po st2)
  then have "specs st2 = specs st"
    using resolve_path_specs [of env spec st] by simp
  with Pair show ?thesis
    by (simp add: detect_one_def Let_def log_call_specs
             split: option.splits sum.splits list.splits)
qed

lemma detect_one_probe_raised:
  assumes "resolve_path env spec st = (Inl e, st2)"
  shows "detect_one env spec st = (Inl e, st2)"
  using assms by (simp add: detect_one_def)

lemma detect_one_not_found:
  assumes "resolve_path env spec st = (Inr None, st2)"
  shows "detect_one env spec st =
           (Inr \<lparr>name = ToolSpec.name spec, path = None, version = None,
                 status = ''not_found''\<rparr>, st2)"
  using assms by (simp add: detect_one_def)

lemma detect_one_available:
  assumes "resolve_path env spec st = (Inr (Some p), st2)"
    and "subprocess_run env [p, version_flag spec] (version_timeout spec) = Inr proc"
    and "returncode proc = 0"
  shows "detect_one env spec st =
           (Inr \<lparr>name = ToolSpec.name spec, path = Some p,
                 version = Some (takeWhile (\<lambda>c. c \<noteq> newline) (py_strip (stdout proc))),
                 status = ''available''\<rparr>,
            log_call (Run [p, version_flag spec] (version_timeout spec)) st2)"
proof -
  obtain rest where "py_split newline (py_strip (stdout proc)) =
      takeWhile (\<lambda>c. c \<noteq> newline) (py_strip (stdout proc)) # rest"
    using py_split_shape by blast
  with assms show ?thesis
    by (simp add: detect_one_def)
qed

lemma detect_one_failed:
  assumes "resolve_path env spec st = (Inr (Some p), st2)"
    and "(\<exists>proc. subprocess_run env [p, version_flag spec] (version_timeout spec) = Inr proc
            \<and> returncode proc \<noteq> 0)
         \<or> subprocess_run env [p, version_flag spec] (version_timeout spec) = Inl TimeoutExpired
         \<or> subprocess_run env [p, version_flag spec] (version_timeout spec) = Inl OSError"
  shows "detect_one env spec st =
           (Inr \<lparr>name = ToolSpec.name spec, path = Some p, version = None,
                 status = ''error''\<rparr>,
            log_call (Run [p, version_flag spec] (version_timeout spec)) st2)"
  using assms by (auto simp: detect_one_def)

lemma detect_one_raised:
  assumes "resolve_path env spec st = (Inr (Some p), st2)"
    and "subprocess_run env [p, version_flag spec] (version_timeout spec) = Inl e"
    and "\<not> caught e"
  shows "detect_one env spec st =
           (Inl e, log_call (Run [p, version_flag spec] (version_timeout spec)) st2)"
  using assms by (simp add: detect_one_def)

lemma caught_iff: "caught e = (e = TimeoutExpired \<or> e = OSError)"
  by (cases e) simp_all

lemma detect_one_cases:
  obtains (probe_raised) e st2 where "resolve_path env spec st = (Inl e, st2)"
  | (not_found) st2 where "resolve_path env spec st = (Inr None, st2)"
  | (available) p st2 proc where "resolve_path env spec st = (Inr (Some p), st2)"
      "subprocess_run env [p, version_flag spec] (version_timeout spec) = Inr proc"
      "returncode proc = 0"
  | (failed) p st2 where "resolve_path env spec st = (Inr (Some p), st2)"
      "(\<exists>proc. subprocess_run env [p, version_flag spec] (version_timeout spec) = Inr proc
            \<and> returncode proc \<noteq> 0)
         \<or> subprocess_run env [p, version_flag spec] (version_timeout spec) = Inl TimeoutExpired
         \<or> subprocess_run env [p, version_flag spec] (version_timeout spec) = Inl OSError"
  | (raised) p st2 e where "resolve_path env spec st = (Inr (Some p), st2)"
      "subprocess_run env [p, version_flag spec] (version_timeout spec) = Inl e"
      "\<not> caught e"
proof (cases "resolve_path env spec st")
  case (Pair po st2)
  show ?thesis
  proof (cases po)
    case (Inl e)
    with Pair show ?thesis by (auto intro: probe_raised)
  next
    case (Inr found)
    show ?thesis
    proof (cases found)
      case None
      with Pair Inr show ?thesis by (auto intro: not_found)
    next
      case (Some p)
      show ?thesis
      proof (cases "subprocess_run env [p, version_flag spec] (version_timeout spec)")
        case (Inl e)
        with Pair Inr Some show ?thesis
          by (cases "caught e") (auto simp: caught_iff intro: failed raised)
      next
        case r: (Inr proc)
        with Pair Inr Some show ?thesis
          by (cases "returncode proc = 0") (auto intro: available failed)
      qed
    qed
  qed
qed

lemma detect_one_result:
  assumes "fst (detect_one env spec st) = Inr r"
  shows "status_consistent r \<and> ToolResult.name r = ToolSpec.name spec"
proof (cases env spec st rule: detect_one_cases)
  case (probe_raised e st2)
  from detect_one_probe_raised [OF this] assms show ?thesis
    by simp
next
  case (not_found st2)
  from detect_one_not_found [OF this] assms show ?thesis
    by (auto simp: status_consistent_def)
next
  case (available p st2 proc)
  from detect_one_available [OF this] assms show ?thesis
    by (auto simp: status_consistent_def)
next
  case (failed p st2)
  from detect_one_failed [OF this] assms show ?thesis
    by (auto simp: status_consistent_def)
next
  case (raised p st2 x)
  from detect_one_raised [OF this] assms show ?thesis
    by simp
qed

lemma detect_one_exception:
  assumes "fst (detect_one env spec st) = Inl e"
  shows "(\<exists>c\<in>set (fallback_paths spec). path_is_file env c = Inl e)
         \<or> (\<not> caught e \<and> (\<exists>args t. subprocess_run env args t = Inl e))"
proof (cases env spec st rule: detect_one_cases)
  case (probe_raised e' st2)
  from detect_one_probe_raised [OF this] assms have "e' = e" by simp
  with probe_raised have "fst (resolve_path env spec st) = Inl e" by simp
  then show ?thesis
    using resolve_path_exception by blast
next
  case (not_found st2)
  from detect_one_not_found [OF this] assms show ?thesis by simp
next
  case (available p st2 proc)
  from detect_one_available [OF this] assms show ?thesis by simp
next
  case (failed p st2)
  from detect_one_failed [OF this] assms show ?thesis by simp
next
  case (raised p st2 x)
  from detect_one_raised [OF this] assms have "x = e" by simp
  with raised show ?thesis by blast
qed

lemma detect_one_state: "fst (detect_one env spec st) = fst (detect_one env spec st')"
proof -
  obtain po st2 where a: "resolve_path env spec st = (po, st2)"
    by (cases "resolve_path env spec st")
  obtain po' st2' where b: "resolve_path env spec st' = (po', st2')"
    by (cases "resolve_path env spec st'")
  from a b have "po' = po"
    using resolve_path_state [of env spec st st'] by simp
  with a b show ?thesis
    by (simp add: detect_one_def Let_def split: option.splits sum.splits list.splits)
qed

section \<open>Facts about the registry\<close>

lemma map_of_dict_setitem: "map_of (dict_setitem k v d) = (map_of d)(k \<mapsto> v)"
  by (induction d) (auto simp: fun_eq_iff)

lemma dict_keys_setitem:
  "dict_keys (dict_setitem k v d) =
     (if k \<in> set (dict_keys d) then dict_keys d else dict_keys d @ [k])"
  by (induction d) (force simp: dict_keys_def)+

lemma dict_setitem_present:
  "k \<notin> set (dict_keys d1) \<Longrightarrow>
   dict_setitem k v (d1 @ (k, old) # d2) = d1 @ (k, v) # d2"
  by (induction d1) (auto simp: dict_keys_def)

lemma dict_setitem_absent:
  "k \<notin> set (dict_keys d) \<Longrightarrow> dict_setitem k v d = d @ [(k, v)]"
  by (induction d) (auto simp: dict_keys_def)

lemma dict_getitem_KeyError:
  "(\<exists>e. dict_getitem d k = Inl e) = (k \<notin> set (dict_keys d))"
proof (cases "map_of d k")
  case None
  then have "k \<notin> fst ` set d"
    by (simp add: map_of_eq_None_iff)
  with None show ?thesis
    by (simp add: dict_getitem_def dict_keys_def)
next
  case (Some v)
  then have "(k, v) \<in> set d"
    by (rule map_of_SomeD)
  then have "k \<in> fst ` set d"
    by force
  with Some show ?thesis
    by (simp add: dict_getitem_def dict_keys_def)
qed

lemma dict_getitem_Inl: "dict_getitem d k = Inl e \<Longrightarrow> e = KeyError k"
  by (auto simp: dict_getitem_def split: option.splits)

lemma register_all_append:
  "register_all (ss @ [s]) st = register s (register_all ss st)"
  by (induction ss arbitrary: st) simp_all

lemma register_os_calls: "os_calls (register spec st) = os_calls st"
  by (simp add: register_def)

lemma register_all_fresh:
  "distinct (map ToolSpec.name ss) \<Longrightarrow>
   specs (register_all ss (ToolRegistry_init cs)) = map (\<lambda>s. (ToolSpec.name s, s)) ss"
proof (induction ss rule: rev_induct)
  case Nil
  show ?case by (simp add: ToolRegistry_init_def)
next
  case (snoc s ss)
  then have IH: "specs (register_all ss (ToolRegistry_init cs)) = map (\<lambda>s. (ToolSpec.name s, s)) ss"
    by simp
  from snoc.prems have "ToolSpec.name s \<notin> set (dict_keys (map (\<lambda>s. (ToolSpec.name s, s)) ss))"
    by (auto simp: dict_keys_def)
  then show ?case
    by (simp add: register_all_append register_def IH dict_setitem_absent)
qed

lemma register_all_keys:
  "set (dict_keys (specs (register_all ss st))) =
     set (dict_keys (specs st)) \<union> ToolSpec.name ` set ss"
  by (induction ss arbitrary: st) (auto simp: register_def dict_keys_setitem split: if_splits)

section \<open>Facts about \<open>detect\<close> and \<open>detect_all\<close>\<close>

lemma detect_each_specs: "specs (snd (detect_each env ss st)) = specs st"
proof (induction ss arbitrary: st)
  case Nil
  show ?case by simp
next
  case (Cons s ss)
  obtain o1 st1 where a: "detect_one env s st = (o1, st1)"
    by (cases "detect_one env s st")
  then have b: "specs st1 = specs st"
    using detect_one_specs [of env s st] by simp
  obtain o2 st2 where c: "detect_each env ss st1 = (o2, st2)"
    by (cases "detect_each env ss st1")
  then have "specs st2 = specs st1"
    using Cons.IH [of st1] by simp
  with a b c show ?case
    by (simp split: sum.splits)
qed

lemma detect_each_results:
  "fst (detect_each env ss st) = Inr rs \<Longrightarrow>
   list_all2 (\<lambda>r s. fst (detect_one env s st0) = Inr r) rs ss"
proof (induction ss arbitrary: st rs)
  case Nil
  then show ?case by simp
next
  case (Cons s ss)
  obtain o1 st1 where a: "detect_one env s st = (o1, st1)"
    by (cases "detect_one env s st")
  obtain o2 st2 where c: "detect_each env ss st1 = (o2, st2)"
    by (cases "detect_each env ss st1")
  from Cons.prems a c obtain r rs' where r: "o1 = Inr r" "o2 = Inr rs'" "rs = r # rs'"
    by (auto split: sum.splits)
  from a r have "fst (detect_one env s st0) = Inr r"
    using detect_one_state [of env s st0 st] by simp
  moreover from c r have "list_all2 (\<lambda>r s. fst (detect_one env s st0) = Inr r) rs' ss"
    using Cons.IH [of st1 rs'] by simp
  ultimately show ?case using r by simp
qed

lemma detect_each_exception:
  "fst (detect_each env ss st) = Inl e \<Longrightarrow>
   \<exists>s\<in>set ss. fst (detect_one env s st0) = Inl e"
proof (induction ss arbitrary: st)
  case Nil
  then show ?case by simp
next
  case (Cons s ss)
  obtain o1 st1 where a: "detect_one env s st = (o1, st1)"
    by (cases "detect_one env s st")
  obtain o2 st2 where c: "detect_each env ss st1 = (o2, st2)"
    by (cases "detect_each env ss st1")
  show ?case
  proof (cases o1)
    case (Inl e1)
    with Cons.prems a have "e1 = e" by simp
    with Inl a have "fst (detect_one env s st0) = Inl e"
      using detect_one_state [of env s st0 st] by simp
    then show ?thesis by simp
  next
    case (Inr r)
    with Cons.prems a c have "fst (detect_each env ss st1) = Inl e"
      by (auto split: sum.splits)
    then have "\<exists>s\<in>set ss. fst (detect_one env s st0) = Inl e"
      by (rule Cons.IH)
    then show ?thesis by auto
  qed
qed

lemma detect_registered:
  "dict_getitem (specs st) n = Inr spec \<Longrightarrow> detect env n st = detect_one env spec st"
  by (simp add: detect_def)

lemmas example_defs =
  example_env_def example_run_def tool_run_def example_is_file_def short_names
  name_too_long_long_path ToolSpec_init_def ToolRegistry_init_def register_def
  detect_def detect_all_def dict_getitem_def dict_values_def resolve_path_def log_call_def

lemma detect_unregistered:
  assumes "n \<notin> set (dict_keys (specs st))"
  shows "detect env n st = (Inl (KeyError n), st)"
proof -
  from assms obtain e where e: "dict_getitem (specs st) n = Inl e"
    using dict_getitem_KeyError [of "specs st" n] by auto
  then have "e = KeyError n"
    by (rule dict_getitem_Inl)
  with e show ?thesis
    by (simp add: detect_def)
qed

lemma registered_names:
  "set (dict_keys (specs (register_all ss (ToolRegistry_init cs)))) = ToolSpec.name ` set ss"
  using register_all_keys [of ss "ToolRegistry_init cs"]
  by (simp add: ToolRegistry_init_def dict_keys_def)

lemma detect_result:
  assumes "fst (detect env n st) = Inr r"
  shows "status_consistent r"
proof (cases "dict_getitem (specs st) n")
  case (Inl e)
  with assms show ?thesis by (simp add: detect_def)
next
  case (Inr spec)
  with assms have "fst (detect_one env spec st) = Inr r"
    by (simp add: detect_def)
  then show ?thesis
    using detect_one_result by blast
qed

lemma detect_all_results:
  assumes "fst (detect_all env st) = Inr rs"
  shows "list_all2 (\<lambda>r s. fst (detect_one env s st) = Inr r) rs (dict_values (specs st))"
  using assms unfolding detect_all_def by (rule detect_each_results)

lemma detect_all_exception:
  assumes "fst (detect_all env st) = Inl e"
  shows "\<exists>s\<in>set (dict_values (specs st)). fst (detect_one env s st) = Inl e"
  using assms unfolding detect_all_def by (rule detect_each_exception)

lemma resolve_path_none:
  assumes "shutil_which env (command spec) = None"
    and "\<forall>c\<in>set (fallback_paths spec). path_is_file env c = Inr False"
  shows "resolve_path env spec st =
           (Inr None,
            st\<lparr>os_calls := os_calls st @ Which (command spec) # map Is_file (fallback_paths spec)\<rparr>)"
  using assms by (simp add: resolve_path_def Let_def probe_fallbacks_none log_call_def)

lemma filter_is_Run_probes: "filter is_Run (Which c # map Is_file cs) = []"
  by (induction cs) simp_all

lemma registered_values:
  "distinct (map ToolSpec.name ss) \<Longrightarrow>
   dict_values (specs (register_all ss (ToolRegistry_init cs))) = ss"
  by (simp add: register_all_fresh dict_values_def comp_def)

section \<open>Detection when every file probe returns\<close>

text \<open>
  What the code does on the inputs where \<open>is_file\<close> raises nothing: a command that is
  nowhere gives \<open>not_found\<close> with no invocation, the first fallback path that is a file
  is taken, and \<open>detect_all\<close> returns its list whenever, besides, the invocations raise
  nothing that the \<open>except\<close> clause lets through.
\<close>

lemma not_found_when_probes_answer_False:
  assumes "dict_getitem (specs st) n = Inr spec"
    and "shutil_which env (command spec) = None"
    and "\<forall>c\<in>set (fallback_paths spec). path_is_file env c = Inr False"
  shows "detect env n st =
           (Inr \<lparr>name = ToolSpec.name spec, path = None, version = None,
                 status = ''not_found''\<rparr>,
            st\<lparr>os_calls := os_calls st @ Which (command spec) # map Is_file (fallback_paths spec)\<rparr>)
         \<and> filter is_Run (os_calls (snd (detect env n st))) = filter is_Run (os_calls st)"
proof -
  from assms(1) have "detect env n st = detect_one env spec st"
    by (rule detect_registered)
  with detect_one_not_found [OF resolve_path_none [OF assms(2,3)], of st]
  have d: "detect env n st =
           (Inr \<lparr>name = ToolSpec.name spec, path = None, version = None,
                 status = ''not_found''\<rparr>,
            st\<lparr>os_calls := os_calls st @ Which (command spec) # map Is_file (fallback_paths spec)\<rparr>)"
    by simp
  then show ?thesis
    by (simp add: filter_is_Run_probes)
qed

lemma first_file_among_fallbacks:
  assumes "shutil_which env (command spec) = None"
    and "fallback_paths spec = pre @ a # post"
    and "\<forall>c\<in>set pre. path_is_file env c = Inr False"
    and "path_is_file env a = Inr True"
  shows "resolve_path env spec st =
           (Inr (Some a),
            st\<lparr>os_calls := os_calls st @ Which (command spec) # map Is_file (pre @ [a])\<rparr>)"
  using assms by (simp add: resolve_path_def Let_def probe_fallbacks_first log_call_def)

lemma probe_exception_leaves_detect_one:
  assumes "shutil_which env (command spec) = None"
    and "fallback_paths spec = pre @ a # post"
    and "\<forall>c\<in>set pre. path_is_file env c = Inr False"
    and "path_is_file env a = Inl e"
  shows "detect_one env spec st =
           (Inl e, st\<lparr>os_calls := os_calls st @ Which (command spec) # map Is_file (pre @ [a])\<rparr>)"
proof -
  from assms have "resolve_path env spec st =
      (Inl e, st\<lparr>os_calls := os_calls st @ Which (command spec) # map Is_file (pre @ [a])\<rparr>)"
    by (simp add: resolve_path_def Let_def probe_fallbacks_raises log_call_def)
  then show ?thesis
    by (rule detect_one_probe_raised)
qed

lemma detect_all_returns:
  assumes "\<forall>p e. path_is_file env p \<noteq> Inl e"
    and "\<forall>args t e. subprocess_run env args t = Inl e \<longrightarrow> caught e"
  shows "\<exists>rs. fst (detect_all env st) = Inr rs"
proof (cases "fst (detect_all env st)")
  case (Inl e)
  then obtain s where "fst (detect_one env s st) = Inl e"
    using detect_all_exception by blast
  from detect_one_exception [OF this] assms show ?thesis
    by blast
next
  case (Inr rs)
  then show ?thesis by simp
qed

lemma detect_all_in_registration_order:
  assumes "distinct (map ToolSpec.name ss)"
    and "st = register_all ss (ToolRegistry_init cs)"
    and "fst (detect_all env st) = Inr rs"
  shows "length rs = length ss
         \<and> map ToolResult.name rs = map ToolSpec.name ss
         \<and> list_all2 (\<lambda>r s. fst (detect_one env s st) = Inr r) rs ss"
proof -
  from assms(1,2) have "dict_values (specs st) = ss"
    by (simp add: registered_values)
  with assms(3) have l: "list_all2 (\<lambda>r s. fst (detect_one env s st) = Inr r) rs ss"
    using detect_all_results [of env st rs] by simp
  then have "length rs = length ss"
    by (rule list_all2_lengthD)
  moreover from l have "list_all2 (\<lambda>r s. ToolResult.name r = ToolSpec.name s) rs ss"
    by (rule list_all2_mono) (use detect_one_result in blast)
  then have "map ToolResult.name rs = map ToolSpec.name ss"
    by (simp add: list_all2_conv_all_nth list_eq_iff_nth_eq)
  ultimately show ?thesis using l by simp
qed

section \<open>C1: the version of an available tool\<close>

text \<open>
  C1, as stated, fails. The claim takes the first line of the captured output and trims
  it, so an output that begins with a newline would give the empty version. The code
  (\<open>proc.stdout.strip().split("\n")[0]\<close>) trims the whole output first and then takes
  the first line: on the machine of the examples \<open>tool --version\<close> exits with status 0
  and prints a blank line, then \<open>foo\<close>; \<open>detect\<close> reports the version \<open>foo\<close>,
  where the specification's wording gives the empty string.
\<close>

theorem C1_blank_first_line_counterexample:
  "subprocess_run example_env [''/usr/bin/tool'', ''--version''] 5 =
     Inr \<lparr>returncode = 0, stdout = ''\<newline>foo\<newline>'', stderr = ''''\<rparr>
   \<and> fst (detect example_env ''Tool''
          (register (ToolSpec_init ''Tool'' ''tool'') (ToolRegistry_init []))) =
     Inr \<lparr>name = ''Tool'', path = Some ''/usr/bin/tool'', version = Some ''foo'',
          status = ''available''\<rparr>
   \<and> spec_version ''\<newline>foo\<newline>'' = ''''"
  by (simp add: example_defs detect_one_def spec_version_def py_split_def py_strip_def
        py_lstrip_def py_rstrip_def py_isspace_def newline_def)

text \<open>
  C1, amended: for every registered specification whose resolved executable's version
  invocation completes with exit status zero, the result has status \<open>available\<close>, the
  resolved path, and as version the text up to the first newline of the captured output
  after that whole output has been trimmed of surrounding whitespace. The version is the
  empty string exactly when the output is whitespace only.
\<close>

theorem C1_version_is_first_line_of_stripped_stdout:
  assumes "dict_getitem (specs st) n = Inr spec"
    and "resolve_path env spec st = (Inr (Some p), st2)"
    and "subprocess_run env [p, version_flag spec] (version_timeout spec) = Inr proc"
    and "returncode proc = 0"
  shows "fst (detect env n st) =
           Inr \<lparr>name = ToolSpec.name spec, path = Some p,
                version = Some (takeWhile (\<lambda>c. c \<noteq> newline) (py_strip (stdout proc))),
                status = ''available''\<rparr>
         \<and> (takeWhile (\<lambda>c. c \<noteq> newline) (py_strip (stdout proc)) = [])
             = list_all py_isspace (stdout proc)"
proof -
  from assms(1) have "detect env n st = detect_one env spec st"
    by (rule detect_registered)
  with detect_one_available [OF assms(2-4)] show ?thesis
    by (simp add: first_line_Nil_iff)
qed

text \<open>
  The theorem at work: \<open>tool -ver\<close> prints the two lines \<open>X\<close> and \<open>Y\<close>, and the
  version is \<open>X\<close> exactly.
\<close>

theorem C1_version_witness:
  "dict_getitem
     (specs (register ((ToolSpec_init ''Tool'' ''tool'')\<lparr>version_flag := ''-ver''\<rparr>)
        (ToolRegistry_init []))) ''Tool''
     = Inr ((ToolSpec_init ''Tool'' ''tool'')\<lparr>version_flag := ''-ver''\<rparr>)
   \<and> subprocess_run example_env [''/usr/bin/tool'', ''-ver''] 5 =
       Inr \<lparr>returncode = 0, stdout = ''X\<newline>Y\<newline>'', stderr = ''''\<rparr>
   \<and> fst (detect example_env ''Tool''
          (register ((ToolSpec_init ''Tool'' ''tool'')\<lparr>version_flag := ''-ver''\<rparr>)
             (ToolRegistry_init []))) =
       Inr \<lparr>name = ''Tool'', path = Some ''/usr/bin/tool'', version = Some ''X'',
            status = ''available''\<rparr>"
proof -
  let ?spec = "(ToolSpec_init ''Tool'' ''tool'')\<lparr>version_flag := ''-ver''\<rparr>"
  let ?st = "register ?spec (ToolRegistry_init [])"
  let ?proc = "\<lparr>returncode = 0, stdout = ''X\<newline>Y\<newline>'', stderr = ''''\<rparr>"
  have h1: "dict_getitem (specs ?st) ''Tool'' = Inr ?spec"
    by (simp add: example_defs)
  have h2: "resolve_path example_env ?spec ?st =
              (Inr (Some ''/usr/bin/tool''), log_call (Which ''tool'') ?st)"
    by (simp add: example_defs)
  have h3: "subprocess_run example_env [''/usr/bin/tool'', version_flag ?spec]
              (version_timeout ?spec) = Inr ?proc"
    by (simp add: example_defs)
  have h4: "returncode ?proc = 0"
    by simp
  have v: "takeWhile (\<lambda>c. c \<noteq> newline) (py_strip ''X\<newline>Y\<newline>'') = ''X''"
    by (simp add: py_strip_def py_lstrip_def py_rstrip_def py_isspace_def newline_def)
  from C1_version_is_first_line_of_stripped_stdout [OF h1 h2 h3 h4] v h1 h3
  show ?thesis
    by (simp add: ToolSpec_init_def)
qed

section \<open>C2: which exceptions leave \<open>detect\<close> and \<open>detect_all\<close>\<close>

text \<open>
  C2 claims that \<open>detect(name)\<close> raises \<open>KeyError\<close> if and only if \<open>name\<close> was never
  registered, and that for a registered name no exception of the process invocation or
  of the file-system primitives leaves \<open>detect\<close> or \<open>detect_all\<close>: each such failure
  becomes a \<open>ToolResult\<close>. The code does not keep the second half. The fallback loop
  calls \<open>is_file\<close> before the \<open>try\<close>, so its \<open>OSError\<close> leaves \<open>detect\<close>: the
  registered tool \<open>Foo\<close> with the fallback path \<open>'/' + 'a' * 300\<close> gives no result but
  \<open>OSError\<close>. And the \<open>except\<close> clause names \<open>TimeoutExpired\<close> and \<open>OSError\<close>
  only: the registered tool \<open>Tool\<close> whose version flag holds a null character gives
  \<open>ValueError\<close>.
\<close>

theorem C2_exceptions_leave_detect:
  "dict_getitem
     (specs (register ((ToolSpec_init ''Foo'' ''definitely_missing_xyz'')
                         \<lparr>fallback_paths := [long_path]\<rparr>)
        (ToolRegistry_init []))) ''Foo''
     = Inr ((ToolSpec_init ''Foo'' ''definitely_missing_xyz'')\<lparr>fallback_paths := [long_path]\<rparr>)
   \<and> path_is_file example_env long_path = Inl OSError
   \<and> fst (detect example_env ''Foo''
          (register ((ToolSpec_init ''Foo'' ''definitely_missing_xyz'')
                         \<lparr>fallback_paths := [long_path]\<rparr>)
             (ToolRegistry_init []))) = Inl OSError
   \<and> dict_getitem
       (specs (register ((ToolSpec_init ''Tool'' ''tool'')\<lparr>version_flag := [CHR 0x00]\<rparr>)
          (ToolRegistry_init []))) ''Tool''
       = Inr ((ToolSpec_init ''Tool'' ''tool'')\<lparr>version_flag := [CHR 0x00]\<rparr>)
   \<and> subprocess_run example_env [''/usr/bin/tool'', [CHR 0x00]] 5 = Inl ValueError
   \<and> fst (detect example_env ''Tool''
          (register ((ToolSpec_init ''Tool'' ''tool'')\<lparr>version_flag := [CHR 0x00]\<rparr>)
             (ToolRegistry_init []))) = Inl ValueError"
  by (simp add: example_defs detect_one_def)

section \<open>C3: the status consistency invariant\<close>

text \<open>
  C3: every \<open>ToolResult\<close> that \<open>detect\<close> returns, and every one in the list that
  \<open>detect_all\<close> returns, satisfies the status consistency invariant: \<open>not_found\<close>
  comes with no path and no version, \<open>available\<close> with a path and a version,
  \<open>error\<close> with a path and no version.
\<close>

theorem C3_status_consistent:
  "(fst (detect env n st) = Inr r \<longrightarrow> status_consistent r)
   \<and> (fst (detect_all env st) = Inr rs \<longrightarrow> list_all status_consistent rs)"
proof -
  have "list_all status_consistent rs" if "fst (detect_all env st) = Inr rs"
  proof -
    from that have "list_all2 (\<lambda>r s. fst (detect_one env s st) = Inr r) rs (dict_values (specs st))"
      by (rule detect_all_results)
    then have "list_all2 (\<lambda>r s. status_consistent r) rs (dict_values (specs st))"
      by (rule list_all2_mono) (use detect_one_result in blast)
    then show ?thesis
      by (auto simp: list_all2_conv_all_nth list_all_length)
  qed
  then show ?thesis
    using detect_result by blast
qed

text \<open>
  The theorem at work on a registry of three tools, one available, one that exits with
  status 1 and one that is missing.
\<close>

theorem C3_status_consistent_witness:
  "fst (detect example_env ''Tool''
          (register_all
             [(ToolSpec_init ''Tool'' ''tool'')\<lparr>version_flag := ''-ver''\<rparr>,
              (ToolSpec_init ''Bad'' ''tool'')\<lparr>version_flag := ''--fail''\<rparr>,
              ToolSpec_init ''Missing'' ''no_such_tool'']
             (ToolRegistry_init []))) =
     Inr \<lparr>name = ''Tool'', path = Some ''/usr/bin/tool'', version = Some ''X'',
          status = ''available''\<rparr>
   \<and> status_consistent
        \<lparr>name = ''Tool'', path = Some ''/usr/bin/tool'', version = Some ''X'',
         status = ''available''\<rparr>
   \<and> fst (detect_all example_env
          (register_all
             [(ToolSpec_init ''Tool'' ''tool'')\<lparr>version_flag := ''-ver''\<rparr>,
              (ToolSpec_init ''Bad'' ''tool'')\<lparr>version_flag := ''--fail''\<rparr>,
              ToolSpec_init ''Missing'' ''no_such_tool'']
             (ToolRegistry_init []))) =
     Inr [\<lparr>name = ''Tool'', path = Some ''/usr/bin/tool'', version = Some ''X'',
           status = ''available''\<rparr>,
          \<lparr>name = ''Bad'', path = Some ''/usr/bin/tool'', version = None,
           status = ''error''\<rparr>,
          \<lparr>name = ''Missing'', path = None, version = None, status = ''not_found''\<rparr>]
   \<and> list_all status_consistent
        [\<lparr>name = ''Tool'', path = Some ''/usr/bin/tool'', version = Some ''X'',
           status = ''available''\<rparr>,
          \<lparr>name = ''Bad'', path = Some ''/usr/bin/tool'', version = None,
           status = ''error''\<rparr>,
          \<lparr>name = ''Missing'', path = None, version = None, status = ''not_found''\<rparr>]"
proof -
  let ?st = "register_all
             [(ToolSpec_init ''Tool'' ''tool'')\<lparr>version_flag := ''-ver''\<rparr>,
              (ToolSpec_init ''Bad'' ''tool'')\<lparr>version_flag := ''--fail''\<rparr>,
              ToolSpec_init ''Missing'' ''no_such_tool'']
             (ToolRegistry_init [])"
  let ?r1 = "\<lparr>name = ''Tool'', path = Some ''/usr/bin/tool'', version = Some ''X'',
           status = ''available''\<rparr>"
  let ?rs = "[?r1,
          \<lparr>name = ''Bad'', path = Some ''/usr/bin/tool'', version = None,
           status = ''error''\<rparr>,
          \<lparr>name = ''Missing'', path = None, version = None, status = ''not_found''\<rparr>]"
  have d1: "fst (detect example_env ''Tool'' ?st) = Inr ?r1"
    by (simp add: example_defs detect_one_def py_split_def py_strip_def
        py_lstrip_def py_rstrip_def py_isspace_def newline_def)
  have d2: "fst (detect_all example_env ?st) = Inr ?rs"
    by (simp add: example_defs detect_one_def py_split_def py_strip_def
        py_lstrip_def py_rstrip_def py_isspace_def newline_def)
  from C3_status_consistent [of example_env "''Tool''" ?st ?r1 ?rs] d1 d2
  have "status_consistent ?r1 \<and> list_all status_consistent ?rs"
    by blast
  with d1 d2 show ?thesis
    by blast
qed

section \<open>C4: a tool that is nowhere\<close>

text \<open>
  C4 claims that for every registered specification whose command the search-path lookup
  does not resolve and none of whose fallback paths is an existing regular file,
  \<open>detect\<close> returns the result with status \<open>not_found\<close>, no path and no version, and
  never attempts the version invocation. The code does not return it when a probe
  raises: \<open>Foo\<close> has a command that is missing and the one fallback path
  \<open>'/' + 'a' * 300\<close>, which is no existing file; \<open>is_file\<close> raises \<open>OSError\<close> for
  it, and \<open>detect\<close> raises that \<open>OSError\<close> after the lookup and the one probe,
  in place of the \<open>not_found\<close> result.
\<close>

theorem C4_probe_error_in_place_of_not_found:
  "shutil_which example_env ''definitely_missing_xyz'' = None
   \<and> path_is_file example_env long_path = Inl OSError
   \<and> detect example_env ''Foo''
        (register ((ToolSpec_init ''Foo'' ''definitely_missing_xyz'')
                     \<lparr>fallback_paths := [long_path]\<rparr>)
           (ToolRegistry_init [])) =
       (Inl OSError,
        (register ((ToolSpec_init ''Foo'' ''definitely_missing_xyz'')
                     \<lparr>fallback_paths := [long_path]\<rparr>)
           (ToolRegistry_init []))
          \<lparr>os_calls := [Which ''definitely_missing_xyz'', Is_file long_path]\<rparr>)"
  by (simp add: example_defs detect_one_def)

section \<open>C5: a tool that is there and misbehaves\<close>

text \<open>
  C5: for every registered specification whose executable is resolved to \<open>p\<close>, the
  result has status \<open>error\<close>, the path \<open>p\<close> and no version when the invocation
  completes with a non-zero exit status, when it exceeds the timeout
  (\<open>TimeoutExpired\<close>), and when the executable cannot be launched (\<open>OSError\<close>).
\<close>

theorem C5_error_results:
  assumes "dict_getitem (specs st) n = Inr spec"
    and "resolve_path env spec st = (Inr (Some p), st2)"
    and "(\<exists>proc. subprocess_run env [p, version_flag spec] (version_timeout spec) = Inr proc
            \<and> returncode proc \<noteq> 0)
         \<or> subprocess_run env [p, version_flag spec] (version_timeout spec) = Inl TimeoutExpired
         \<or> subprocess_run env [p, version_flag spec] (version_timeout spec) = Inl OSError"
  shows "fst (detect env n st) =
           Inr \<lparr>name = ToolSpec.name spec, path = Some p, version = None, status = ''error''\<rparr>"
proof -
  from assms(1) have "detect env n st = detect_one env spec st"
    by (rule detect_registered)
  with detect_one_failed [OF assms(2,3)] show ?thesis
    by simp
qed

text \<open>
  The theorem at work, once for each of the three cases: an exit status of 1, a timeout,
  and a fallback file that cannot be launched.
\<close>

theorem C5_error_results_witness:
  "subprocess_run example_env [''/usr/bin/tool'', ''--fail''] 5 =
     Inr \<lparr>returncode = 1, stdout = '''', stderr = ''unknown option''\<rparr>
   \<and> fst (detect example_env ''Bad''
          (register ((ToolSpec_init ''Bad'' ''tool'')\<lparr>version_flag := ''--fail''\<rparr>)
             (ToolRegistry_init []))) =
       Inr \<lparr>name = ''Bad'', path = Some ''/usr/bin/tool'', version = None, status = ''error''\<rparr>
   \<and> subprocess_run example_env [''/usr/bin/tool'', ''--sleep''] 5 = Inl TimeoutExpired
   \<and> fst (detect example_env ''Slow''
          (register ((ToolSpec_init ''Slow'' ''tool'')\<lparr>version_flag := ''--sleep''\<rparr>)
             (ToolRegistry_init []))) =
       Inr \<lparr>name = ''Slow'', path = Some ''/usr/bin/tool'', version = None, status = ''error''\<rparr>
   \<and> subprocess_run example_env [''/opt/a/tool'', ''--help''] 5 = Inl OSError
   \<and> fst (detect example_env ''Locked''
          (register ((ToolSpec_init ''Locked'' ''locked'')
                       \<lparr>version_flag := ''--help'', fallback_paths := [''/opt/a/tool'']\<rparr>)
             (ToolRegistry_init []))) =
       Inr \<lparr>name = ''Locked'', path = Some ''/opt/a/tool'', version = None, status = ''error''\<rparr>"
proof -
  let ?bad = "(ToolSpec_init ''Bad'' ''tool'')\<lparr>version_flag := ''--fail''\<rparr>"
  let ?slow = "(ToolSpec_init ''Slow'' ''tool'')\<lparr>version_flag := ''--sleep''\<rparr>"
  let ?locked = "(ToolSpec_init ''Locked'' ''locked'')
                   \<lparr>version_flag := ''--help'', fallback_paths := [''/opt/a/tool'']\<rparr>"
  let ?stb = "register ?bad (ToolRegistry_init [])"
  let ?sts = "register ?slow (ToolRegistry_init [])"
  let ?stl = "register ?locked (ToolRegistry_init [])"
  have b1: "dict_getitem (specs ?stb) ''Bad'' = Inr ?bad"
    by (simp add: example_defs)
  have b2: "resolve_path example_env ?bad ?stb =
              (Inr (Some ''/usr/bin/tool''), log_call (Which ''tool'') ?stb)"
    by (simp add: example_defs)
  have b3: "subprocess_run example_env [''/usr/bin/tool'', ''--fail''] 5 =
              Inr \<lparr>returncode = 1, stdout = '''', stderr = ''unknown option''\<rparr>"
    by (simp add: example_defs)
  have s1: "dict_getitem (specs ?sts) ''Slow'' = Inr ?slow"
    by (simp add: example_defs)
  have s2: "resolve_path example_env ?slow ?sts =
              (Inr (Some ''/usr/bin/tool''), log_call (Which ''tool'') ?sts)"
    by (simp add: example_defs)
  have s3: "subprocess_run example_env [''/usr/bin/tool'', ''--sleep''] 5 = Inl TimeoutExpired"
    by (simp add: example_defs)
  have l1: "dict_getitem (specs ?stl) ''Locked'' = Inr ?locked"
    by (simp add: example_defs)
  have l2: "resolve_path example_env ?locked ?stl =
              (Inr (Some ''/opt/a/tool''),
               log_call (Is_file ''/opt/a/tool'') (log_call (Which ''locked'') ?stl))"
    by (simp add: example_defs)
  have l3: "subprocess_run example_env [''/opt/a/tool'', ''--help''] 5 = Inl OSError"
    by (simp add: example_defs)
  have "fst (detect example_env ''Bad'' ?stb) =
       Inr \<lparr>name = ''Bad'', path = Some ''/usr/bin/tool'', version = None, status = ''error''\<rparr>"
    using C5_error_results [OF b1 b2] b3 by (simp add: ToolSpec_init_def)
  moreover have "fst (detect example_env ''Slow'' ?sts) =
       Inr \<lparr>name = ''Slow'', path = Some ''/usr/bin/tool'', version = None, status = ''error''\<rparr>"
    using C5_error_results [OF s1 s2] s3 by (simp add: ToolSpec_init_def)
  moreover have "fst (detect example_env ''Locked'' ?stl) =
       Inr \<lparr>name = ''Locked'', path = Some ''/opt/a/tool'', version = None, status = ''error''\<rparr>"
    using C5_error_results [OF l1 l2] l3 by (simp add: ToolSpec_init_def)
  ultimately show ?thesis
    using b3 s3 l3 by simp
qed

section \<open>C6: the order of the fallback paths\<close>

text \<open>
  C6 claims that, when the search-path lookup fails, the fallback paths are probed in
  list order and the first one that is an existing regular file becomes the resolved
  path. The code probes in list order, but an entry whose probe raises ends the
  detection: with the fallback paths \<open>['/' + 'a' * 300, '/opt/a/tool']\<close>, the first no
  existing file and the second one a file, nothing is resolved and \<open>_detect_one\<close>
  raises the \<open>OSError\<close> of the first probe; the second path is never probed.
\<close>

theorem C6_probe_error_before_the_existing_file:
  "shutil_which example_env ''missing'' = None
   \<and> path_is_file example_env long_path = Inl OSError
   \<and> path_is_file example_env ''/opt/a/tool'' = Inr True
   \<and> resolve_path example_env
        ((ToolSpec_init ''T'' ''missing'')\<lparr>fallback_paths := [long_path, ''/opt/a/tool'']\<rparr>)
        (ToolRegistry_init []) =
       (Inl OSError,
        (ToolRegistry_init [])\<lparr>os_calls := [Which ''missing'', Is_file long_path]\<rparr>)
   \<and> fst (detect_one example_env
        ((ToolSpec_init ''T'' ''missing'')\<lparr>fallback_paths := [long_path, ''/opt/a/tool'']\<rparr>)
        (ToolRegistry_init [])) = Inl OSError"
  by (simp add: example_defs detect_one_def)

section \<open>C7: \<open>detect_all\<close>\<close>

text \<open>
  C7 claims that \<open>detect_all\<close> returns exactly one result per registered specification,
  in registration order, whatever the outcome of each detection, and never fails. The
  code can fail: the list comprehension calls \<open>_detect_one\<close> for each specification, and
  an exception that leaves one call ends the whole. With the tool \<open>A\<close> and a second
  tool whose fallback path is \<open>'/' + 'a' * 300\<close>, \<open>detect_all\<close> raises the
  \<open>OSError\<close> of the file probe; with a second tool whose version flag holds a null
  character, it raises \<open>ValueError\<close>. In both cases no list is returned.
\<close>

theorem C7_detect_all_raises:
  "fst (detect_all example_env
          (register_all
             [ToolSpec_init ''A'' ''tool'',
              (ToolSpec_init ''B'' ''missing'')\<lparr>fallback_paths := [long_path]\<rparr>]
             (ToolRegistry_init []))) = Inl OSError
   \<and> fst (detect_all example_env
          (register_all
             [ToolSpec_init ''A'' ''tool'',
              (ToolSpec_init ''B'' ''tool'')\<lparr>version_flag := [CHR 0x00]\<rparr>]
             (ToolRegistry_init []))) = Inl ValueError"
  by (simp add: example_defs detect_one_def py_split_def py_strip_def
        py_lstrip_def py_rstrip_def py_isspace_def newline_def)

section \<open>C8: \<open>register\<close>\<close>

text \<open>
  C8: \<open>register\<close> always succeeds: it is a total function from states to states with
  no exception among its results, as the single dict assignment of the source. It
  inserts or replaces the entry of \<open>spec.name\<close> and touches nothing else, so a
  \<open>detect\<close> of that name right after it runs \<open>_detect_one\<close> on the specification
  just registered, whatever was registered under the name before (last write wins); the
  empty name is a name like any other.
\<close>

theorem C8_register_last_write_wins:
  "map_of (specs (register spec st)) = (map_of (specs st))(ToolSpec.name spec \<mapsto> spec)
   \<and> os_calls (register spec st) = os_calls st
   \<and> detect env (ToolSpec.name spec) (register spec st)
       = detect_one env spec (register spec st)
   \<and> detect env [] (register (spec\<lparr>ToolSpec.name := []\<rparr>) st)
       = detect_one env (spec\<lparr>ToolSpec.name := []\<rparr>) (register (spec\<lparr>ToolSpec.name := []\<rparr>) st)"
proof -
  have m: "map_of (specs (register s st)) = (map_of (specs st))(ToolSpec.name s \<mapsto> s)" for s
    by (simp add: register_def map_of_dict_setitem)
  then have "detect env (ToolSpec.name s) (register s st) = detect_one env s (register s st)" for s
    by (simp add: detect_def dict_getitem_def)
  from this [of spec] this [of "spec\<lparr>ToolSpec.name := []\<rparr>"] m [of spec] show ?thesis
    by (simp add: register_os_calls)
qed

text \<open>
  The theorem at work: \<open>Tool\<close> is registered with a command that is missing, then
  again with one that is there; \<open>detect\<close> follows the second registration.
\<close>

theorem C8_register_witness:
  "fst (detect example_env ''Tool''
          (register ((ToolSpec_init ''Tool'' ''tool'')\<lparr>version_flag := ''-ver''\<rparr>)
             (register (ToolSpec_init ''Tool'' ''no_such_tool'') (ToolRegistry_init [])))) =
     Inr \<lparr>name = ''Tool'', path = Some ''/usr/bin/tool'', version = Some ''X'',
          status = ''available''\<rparr>
   \<and> fst (detect example_env ''Tool''
          (register (ToolSpec_init ''Tool'' ''no_such_tool'') (ToolRegistry_init []))) =
     Inr \<lparr>name = ''Tool'', path = None, version = None, status = ''not_found''\<rparr>"
proof -
  let ?old = "ToolSpec_init ''Tool'' ''no_such_tool''"
  let ?new = "(ToolSpec_init ''Tool'' ''tool'')\<lparr>version_flag := ''-ver''\<rparr>"
  let ?st = "register ?old (ToolRegistry_init [])"
  have n: "ToolSpec.name ?new = ''Tool''" "ToolSpec.name ?old = ''Tool''"
    by (simp_all add: ToolSpec_init_def)
  have a: "fst (detect_one example_env ?new (register ?new ?st)) =
     Inr \<lparr>name = ''Tool'', path = Some ''/usr/bin/tool'', version = Some ''X'',
          status = ''available''\<rparr>"
    by (simp add: example_defs detect_one_def py_split_def py_strip_def
        py_lstrip_def py_rstrip_def py_isspace_def newline_def)
  have b: "fst (detect_one example_env ?old ?st) =
     Inr \<lparr>name = ''Tool'', path = None, version = None, status = ''not_found''\<rparr>"
    by (simp add: example_defs detect_one_def)
  from C8_register_last_write_wins [of ?new ?st example_env] n a
  have "fst (detect example_env ''Tool'' (register ?new ?st)) =
     Inr \<lparr>name = ''Tool'', path = Some ''/usr/bin/tool'', version = Some ''X'',
          status = ''available''\<rparr>"
    by simp
  moreover from C8_register_last_write_wins [of ?old "ToolRegistry_init []" example_env] n b
  have "fst (detect example_env ''Tool'' ?st) =
     Inr \<lparr>name = ''Tool'', path = None, version = None, status = ''not_found''\<rparr>"
    by simp
  ultimately show ?thesis
    by blast
qed

section \<open>C9: detection changes no specification\<close>

text \<open>
  C9: \<open>detect\<close> and \<open>detect_all\<close> leave the registry's dict of specifications as it
  was, whatever they return or raise: the same names in the same order, each with the
  same specification, equal in every field. Among the operations only \<open>register\<close>
  writes \<open>_specs\<close>.
\<close>

theorem C9_detection_keeps_the_registry:
  "specs (snd (detect env n st)) = specs st
   \<and> specs (snd (detect_all env st)) = specs st"
proof -
  have "specs (snd (detect env n st)) = specs st"
    by (cases "dict_getitem (specs st) n") (simp_all add: detect_def detect_one_specs)
  moreover have "specs (snd (detect_all env st)) = specs st"
    by (simp add: detect_all_def detect_each_specs)
  ultimately show ?thesis ..
qed

text \<open>The theorem at work on a registry of one tool.\<close>

theorem C9_detection_keeps_the_registry_witness:
  "specs (snd (detect example_env ''Tool''
      (register ((ToolSpec_init ''Tool'' ''tool'')\<lparr>version_flag := ''-ver''\<rparr>)
         (ToolRegistry_init [])))) =
     [(''Tool'', (ToolSpec_init ''Tool'' ''tool'')\<lparr>version_flag := ''-ver''\<rparr>)]
   \<and> specs (snd (detect_all example_env
      (register ((ToolSpec_init ''Tool'' ''tool'')\<lparr>version_flag := ''-ver''\<rparr>)
         (ToolRegistry_init [])))) =
     [(''Tool'', (ToolSpec_init ''Tool'' ''tool'')\<lparr>version_flag := ''-ver''\<rparr>)]"
proof -
  let ?spec = "(ToolSpec_init ''Tool'' ''tool'')\<lparr>version_flag := ''-ver''\<rparr>"
  let ?st = "register ?spec (ToolRegistry_init [])"
  have "specs ?st = [(''Tool'', ?spec)]"
    by (simp add: example_defs)
  with C9_detection_keeps_the_registry [of example_env "''Tool''" ?st]
  show ?thesis
    by simp
qed

section \<open>C10: registering a name again keeps its place\<close>

text \<open>
  C10: registering a specification under a name that is present keeps the place of that
  name: the entries before and after it stay where they are and only its specification
  is replaced, so \<open>detect_all\<close> reports the new specification at the old position,
  not at the end.
\<close>

theorem C10_reregistering_keeps_the_position:
  assumes "specs st = d1 @ (k, old) # d2"
    and "k \<notin> set (dict_keys d1)"
    and "ToolSpec.name spec = k"
  shows "specs (register spec st) = d1 @ (k, spec) # d2
         \<and> (\<forall>rs. fst (detect_all env (register spec st)) = Inr rs \<longrightarrow>
               list_all2 (\<lambda>r s. fst (detect_one env s st) = Inr r) rs
                 (dict_values d1 @ spec # dict_values d2))"
proof -
  from assms have s: "specs (register spec st) = d1 @ (k, spec) # d2"
    by (simp add: register_def dict_setitem_present)
  have "list_all2 (\<lambda>r s. fst (detect_one env s st) = Inr r) rs
          (dict_values d1 @ spec # dict_values d2)"
    if "fst (detect_all env (register spec st)) = Inr rs" for rs
  proof -
    from that have "list_all2 (\<lambda>r s. fst (detect_one env s st) = Inr r) rs
        (dict_values (specs (register spec st)))"
      unfolding detect_all_def by (rule detect_each_results)
    with s show ?thesis
      by (simp add: dict_values_def)
  qed
  with s show ?thesis by blast
qed

text \<open>
  The theorem at work: after \<open>register(S1)\<close>, \<open>register(S2)\<close> and \<open>register(S1')\<close>
  with the name of \<open>S1\<close>, \<open>detect_all\<close> gives the result of \<open>S1'\<close> before that of
  \<open>S2\<close>.
\<close>

theorem C10_reregistering_witness:
  "ToolSpec.name ((ToolSpec_init ''S1'' ''tool'')\<lparr>version_flag := ''-ver''\<rparr>)
     = ToolSpec.name (ToolSpec_init ''S1'' ''no_such_tool'')
   \<and> specs (register ((ToolSpec_init ''S1'' ''tool'')\<lparr>version_flag := ''-ver''\<rparr>)
        (register (ToolSpec_init ''S2'' ''tool'')
          (register (ToolSpec_init ''S1'' ''no_such_tool'') (ToolRegistry_init [])))) =
       [(''S1'', (ToolSpec_init ''S1'' ''tool'')\<lparr>version_flag := ''-ver''\<rparr>),
        (''S2'', ToolSpec_init ''S2'' ''tool'')]
   \<and> fst (detect_all example_env
        (register ((ToolSpec_init ''S1'' ''tool'')\<lparr>version_flag := ''-ver''\<rparr>)
          (register (ToolSpec_init ''S2'' ''tool'')
            (register (ToolSpec_init ''S1'' ''no_such_tool'') (ToolRegistry_init []))))) =
       Inr [\<lparr>name = ''S1'', path = Some ''/usr/bin/tool'', version = Some ''X'',
             status = ''available''\<rparr>,
            \<lparr>name = ''S2'', path = Some ''/usr/bin/tool'', version = Some ''foo'',
             status = ''available''\<rparr>]"
proof -
  let ?s1 = "ToolSpec_init ''S1'' ''no_such_tool''"
  let ?s2 = "ToolSpec_init ''S2'' ''tool''"
  let ?s1' = "(ToolSpec_init ''S1'' ''tool'')\<lparr>version_flag := ''-ver''\<rparr>"
  let ?st = "register ?s2 (register ?s1 (ToolRegistry_init []))"
  have h1: "specs ?st = [] @ (''S1'', ?s1) # [(''S2'', ?s2)]"
    by (simp add: example_defs)
  have h2: "''S1'' \<notin> set (dict_keys [])"
    by (simp add: dict_keys_def)
  have h3: "ToolSpec.name ?s1' = ''S1''"
    by (simp add: ToolSpec_init_def)
  have n: "ToolSpec.name ?s1' = ToolSpec.name ?s1"
    by (simp add: ToolSpec_init_def)
  have d: "fst (detect_all example_env (register ?s1' ?st)) =
       Inr [\<lparr>name = ''S1'', path = Some ''/usr/bin/tool'', version = Some ''X'',
             status = ''available''\<rparr>,
            \<lparr>name = ''S2'', path = Some ''/usr/bin/tool'', version = Some ''foo'',
             status = ''available''\<rparr>]"
    by (simp add: example_defs detect_one_def py_split_def py_strip_def
        py_lstrip_def py_rstrip_def py_isspace_def newline_def)
  from C10_reregistering_keeps_the_position [OF h1 h2 h3, of example_env]
  have "specs (register ?s1' ?st) = [(''S1'', ?s1'), (''S2'', ?s2)]"
    by simp
  with n d show ?thesis
    by blast
qed

end
